theory Spec2Isabelle
  imports Complex_Main "HOL-Library.Multiset" "HOL-Library.Sublist" "HOL-Library.AList"
begin

section \<open>The SOCKS5 listener probe of ping\_proxies.py\<close>

text \<open>
  The development embeds \<^verbatim>\<open>src/ping_proxies.py\<close>: one probe attempt
  (\<^verbatim>\<open>test_single_proxy_attempt\<close>), the retry wrapper (\<^verbatim>\<open>test_proxy\<close>) and
  the collection, sorting and tallying done by \<^verbatim>\<open>main\<close>.

  Python strings are modelled as \<^typ>\<open>string\<close> holding the UTF-8 bytes of the text.
  The operations the program applies to them (concatenation, comparison, splitting at
  the ASCII separator \<^verbatim>\<open>" ("\<close>) give the same result on the UTF-8 bytes as on the
  code points.
\<close>

subsection \<open>String constants of the source\<close>

definition s_fail :: string where
  \<comment> \<open>U+5931 U+8D25, "failed": the initial value of the status field\<close>
  "s_fail = [CHR 0xE5, CHR 0xA4, CHR 0xB1, CHR 0xE8, CHR 0xB4, CHR 0xA5]"

definition s_ok :: string where
  \<comment> \<open>U+6210 U+529F, "success"\<close>
  "s_ok = [CHR 0xE6, CHR 0x88, CHR 0x90, CHR 0xE5, CHR 0x8A, CHR 0x9F]"

definition s_unknown :: string where
  \<comment> \<open>U+672A U+77E5, "unknown"\<close>
  "s_unknown = [CHR 0xE6, CHR 0x9C, CHR 0xAA, CHR 0xE7, CHR 0x9F, CHR 0xA5]"

definition s_timeout :: string where
  \<comment> \<open>U+8D85 U+65F6, "timed out"\<close>
  "s_timeout = [CHR 0xE8, CHR 0xB6, CHR 0x85, CHR 0xE6, CHR 0x97, CHR 0xB6]"

definition s_proxy_error :: string where
  \<comment> \<open>U+4EE3 U+7406 U+9519 U+8BEF, "proxy error"\<close>
  "s_proxy_error = [CHR 0xE4, CHR 0xBB, CHR 0xA3, CHR 0xE7, CHR 0x90, CHR 0x86,
                    CHR 0xE9, CHR 0x94, CHR 0x99, CHR 0xE8, CHR 0xAF, CHR 0xAF]"

definition s_error :: string where
  \<comment> \<open>U+9519 U+8BEF, "error"\<close>
  "s_error = [CHR 0xE9, CHR 0x94, CHR 0x99, CHR 0xE8, CHR 0xAF, CHR 0xAF]"

definition s_retry :: string where
  \<comment> \<open>U+91CD U+8BD5, "retry"\<close>
  "s_retry = [CHR 0xE9, CHR 0x87, CHR 0x8D, CHR 0xE8, CHR 0xAF, CHR 0x95]"

definition s_already :: string where
  \<comment> \<open>U+5DF2, "already"\<close>
  "s_already = [CHR 0xE5, CHR 0xB7, CHR 0xB2]"

definition s_times :: string where
  \<comment> \<open>U+6B21, "times"\<close>
  "s_times = [CHR 0xE6, CHR 0xAC, CHR 0xA1]"

definition MAX_RETRIES :: nat where
  "MAX_RETRIES = 3"

subsection \<open>Formatting integers\<close>

definition digit_char :: "nat \<Rightarrow> char" where
  "digit_char d = ''0123456789'' ! d"

fun str_nat :: "nat \<Rightarrow> string" where
  "str_nat n = (if n < 10 then [digit_char n] else str_nat (n div 10) @ [digit_char (n mod 10)])"

declare str_nat.simps [simp del]

definition str_int :: "int \<Rightarrow> string" where
  \<comment> \<open>Python's \<^verbatim>\<open>str\<close> of an integer, as an f-string field renders it\<close>
  "str_int i = (if i < 0 then CHR ''-'' # str_nat (nat (- i)) else str_nat (nat i))"

subsection \<open>Exceptions\<close>

text \<open>
  An exception value carries the name of its class and the qualified names of the
  classes in that class's method resolution order (itself included), so that
  \<^verbatim>\<open>isinstance\<close> is membership. The hierarchy of the \<^verbatim>\<open>requests\<close> library is
  data of the environment, not of this program.
\<close>

record pyexc =
  exc_name :: string
  exc_mro :: "string list"

definition isinstance :: "pyexc \<Rightarrow> string \<Rightarrow> bool" where
  "isinstance e c = (c \<in> set (exc_mro e))"

definition c_Timeout :: string where
  "c_Timeout = ''requests.exceptions.Timeout''"

definition c_ProxyError :: string where
  "c_ProxyError = ''requests.exceptions.ProxyError''"

definition c_RequestException :: string where
  "c_RequestException = ''requests.exceptions.RequestException''"

definition c_Exception :: string where
  "c_Exception = ''Exception''"

definition builtin_exc :: "string \<Rightarrow> pyexc" where
  \<comment> \<open>a direct subclass of \<^verbatim>\<open>Exception\<close> from the builtins\<close>
  "builtin_exc n = \<lparr>exc_name = n, exc_mro = [n, ''Exception'', ''BaseException'', ''object'']\<rparr>"

definition KeyError :: pyexc where
  "KeyError = \<lparr>exc_name = ''KeyError'',
     exc_mro = [''KeyError'', ''LookupError'', ''Exception'', ''BaseException'', ''object'']\<rparr>"

definition TypeError :: pyexc where
  "TypeError = builtin_exc ''TypeError''"

definition AttributeError :: pyexc where
  "AttributeError = builtin_exc ''AttributeError''"

definition SystemExit :: pyexc where
  "SystemExit = \<lparr>exc_name = ''SystemExit'',
     exc_mro = [''SystemExit'', ''BaseException'', ''object'']\<rparr>"

definition request_exc_tail :: "string list" where
  "request_exc_tail =
     [''requests.exceptions.RequestException'', ''OSError'', ''Exception'',
      ''BaseException'', ''object'']"

definition ReadTimeout :: pyexc where
  "ReadTimeout = \<lparr>exc_name = ''ReadTimeout'',
     exc_mro = [''requests.exceptions.ReadTimeout'', ''requests.exceptions.Timeout'']
               @ request_exc_tail\<rparr>"

definition ConnectTimeout :: pyexc where
  \<comment> \<open>both a \<^verbatim>\<open>ConnectionError\<close> and a \<^verbatim>\<open>Timeout\<close>\<close>
  "ConnectTimeout = \<lparr>exc_name = ''ConnectTimeout'',
     exc_mro = [''requests.exceptions.ConnectTimeout'', ''requests.exceptions.ConnectionError'',
                ''requests.exceptions.Timeout''] @ request_exc_tail\<rparr>"

definition ProxyError :: pyexc where
  "ProxyError = \<lparr>exc_name = ''ProxyError'',
     exc_mro = [''requests.exceptions.ProxyError'', ''requests.exceptions.ConnectionError'']
               @ request_exc_tail\<rparr>"

definition ConnectionError :: pyexc where
  "ConnectionError = \<lparr>exc_name = ''ConnectionError'',
     exc_mro = [''requests.exceptions.ConnectionError''] @ request_exc_tail\<rparr>"

subsection \<open>Targets, replies and result rows\<close>

text \<open>
  A listener entry is a dictionary read from the configuration. The program reads the
  keys \<^verbatim>\<open>name\<close>, \<^verbatim>\<open>port\<close> and \<^verbatim>\<open>proxy\<close>; a field is \<open>None\<close> when the
  entry lacks the key, and reading it raises \<^verbatim>\<open>KeyError\<close>.
\<close>

record proxy_info =
  name :: "string option"
  port :: "int option"
  proxy :: "string option"

definition getitem :: "'a option \<Rightarrow> pyexc + 'a" where
  "getitem v = (case v of None \<Rightarrow> Inl KeyError | Some x \<Rightarrow> Inr x)"

text \<open>
  The body of an HTTP reply, once parsed as JSON, is an object with string fields or
  something else; parsing itself may raise.
\<close>

datatype json = JObject "(string \<times> string) list" | JNonObject

record response =
  status_code :: int
  json_body :: "pyexc + json"

text \<open>
  What the network does during one attempt: how long each request takes, and whether it
  raises or returns a reply. The second request is only sent when the first one
  returned status 200 with an \<^verbatim>\<open>ip\<close> field.
\<close>

record attempt_net =
  primary_took :: real
  primary_reply :: "pyexc + response"
  geo_took :: real
  geo_reply :: "pyexc + response"

text \<open>
  The latency cell holds either a text or the text that \<^verbatim>\<open>f"{x:.2f}"\<close> renders for
  the number \<open>x\<close>; the rendering of floating-point numbers is not modelled, the number
  is kept.
\<close>

datatype cell = Text string | Fixed2 real

record result =
  r_name :: string
  r_proxy_name :: string
  r_port :: int
  r_proxy_url :: string
  r_status :: string
  r_ip :: string
  r_country :: string
  r_city :: string
  r_org :: string
  r_latency :: cell

text \<open>
  The state a task threads through its calls: the wall clock and the number of calls of
  \<^verbatim>\<open>test_single_proxy_attempt\<close> made so far.
\<close>

record world =
  now :: real
  attempts :: nat

subsection \<open>One attempt: test\_single\_proxy\_attempt\<close>

definition requests_get :: "real \<Rightarrow> pyexc + response \<Rightarrow> world \<Rightarrow> (pyexc + response) \<times> world" where
  \<comment> \<open>a request takes its time on the wall clock, then raises or returns its reply\<close>
  "requests_get took reply w = (reply, w\<lparr>now := now w + took\<rparr>)"

definition time_sleep :: "real \<Rightarrow> world \<Rightarrow> world" where
  "time_sleep secs w = w\<lparr>now := now w + secs\<rparr>"

definition json_getitem :: "response \<Rightarrow> string \<Rightarrow> pyexc + string" where
  \<comment> \<open>\<^verbatim>\<open>response.json()[key]\<close>\<close>
  "json_getitem resp key =
     (case json_body resp of
        Inl e \<Rightarrow> Inl e
      | Inr JNonObject \<Rightarrow> Inl TypeError
      | Inr (JObject d) \<Rightarrow> (case map_of d key of None \<Rightarrow> Inl KeyError | Some v \<Rightarrow> Inr v))"

definition dict_get :: "(string \<times> 'a) list \<Rightarrow> string \<Rightarrow> 'a \<Rightarrow> 'a" where
  \<comment> \<open>\<^verbatim>\<open>d.get(key, default)\<close>\<close>
  "dict_get d key dflt = (case map_of d key of None \<Rightarrow> dflt | Some v \<Rightarrow> v)"

definition geo_fields :: "response \<Rightarrow> pyexc + string \<times> string \<times> string" where
  \<comment> \<open>lines 93 to 101: country, city and operator from the geolocation reply\<close>
  "geo_fields geo_response =
     (if status_code geo_response = 200 then
        (case json_body geo_response of
           Inl e \<Rightarrow> Inl e
         | Inr JNonObject \<Rightarrow> Inl AttributeError
         | Inr (JObject geo_data) \<Rightarrow>
             Inr (dict_get geo_data ''country'' ''-'',
                  dict_get geo_data ''city'' ''-'',
                  dict_get geo_data ''org'' ''-''))
      else Inr (s_unknown, s_unknown, s_unknown))"

definition initial_result :: "string \<Rightarrow> int \<Rightarrow> string \<Rightarrow> result" where
  \<comment> \<open>lines 53 to 66\<close>
  "initial_result nm pt proxy_name =
     \<lparr>r_name = nm, r_proxy_name = proxy_name, r_port = pt,
      r_proxy_url = ''socks5://127.0.0.1:'' @ str_int pt,
      r_status = s_fail, r_ip = ''-'', r_country = ''-'', r_city = ''-'', r_org = ''-'',
      r_latency = Text ''-''\<rparr>"

definition attempt_try :: "attempt_net \<Rightarrow> result \<Rightarrow> world \<Rightarrow> (pyexc + result \<times> bool) \<times> world" where
  \<comment> \<open>the body of the \<^verbatim>\<open>try\<close>, lines 77 to 112; \<open>Inl\<close> is an exception leaving it\<close>
  "attempt_try n result w =
     (let start_time = now w in
      case requests_get (primary_took n) (primary_reply n) w of
        (Inl e, w1) \<Rightarrow> (Inl e, w1)
      | (Inr resp, w1) \<Rightarrow>
          let elapsed = (now w1 - start_time) * 1000 in
          if status_code resp = 200 then
            (case json_getitem resp ''ip'' of
               Inl e \<Rightarrow> (Inl e, w1)
             | Inr ip_address \<Rightarrow>
                 (case requests_get (geo_took n) (geo_reply n) w1 of
                    (Inl e, w2) \<Rightarrow> (Inl e, w2)
                  | (Inr geo_response, w2) \<Rightarrow>
                      (case geo_fields geo_response of
                         Inl e \<Rightarrow> (Inl e, w2)
                       | Inr (country, city, org) \<Rightarrow>
                           (Inr (result\<lparr>r_status := s_ok, r_ip := ip_address,
                                        r_country := country, r_city := city, r_org := org,
                                        r_latency := Fixed2 elapsed\<rparr>, True), w2))))
          else (Inr (result, False), w1))"

definition attempt_except :: "pyexc \<Rightarrow> result \<Rightarrow> pyexc + result \<times> bool" where
  \<comment> \<open>the \<^verbatim>\<open>except\<close> clauses, lines 113 to 124, tried in order; an exception that is
      no \<^verbatim>\<open>Exception\<close> leaves the function\<close>
  "attempt_except e result =
     (if isinstance e c_Timeout then Inr (result\<lparr>r_status := s_timeout\<rparr>, False)
      else if isinstance e c_ProxyError then Inr (result\<lparr>r_status := s_proxy_error\<rparr>, False)
      else if isinstance e c_RequestException
        then Inr (result\<lparr>r_status := s_fail @ '': '' @ exc_name e\<rparr>, False)
      else if isinstance e c_Exception
        then Inr (result\<lparr>r_status := s_error @ '': '' @ exc_name e\<rparr>, False)
      else Inl e)"

definition test_single_proxy_attempt ::
    "(nat \<Rightarrow> attempt_net) \<Rightarrow> proxy_info \<Rightarrow> world \<Rightarrow> (pyexc + result \<times> bool) \<times> world" where
  \<comment> \<open>\<open>net k\<close> is what the network does during the call number \<open>k\<close> (from 0) of this task\<close>
  "test_single_proxy_attempt net proxy_info w0 =
     (let w = w0\<lparr>attempts := attempts w0 + 1\<rparr> in
      case getitem (name proxy_info) of Inl e \<Rightarrow> (Inl e, w) | Inr nm \<Rightarrow>
     (case getitem (port proxy_info) of Inl e \<Rightarrow> (Inl e, w) | Inr pt \<Rightarrow>
     (case getitem (proxy proxy_info) of Inl e \<Rightarrow> (Inl e, w) | Inr proxy_name \<Rightarrow>
       (let result = initial_result nm pt proxy_name in
        case attempt_try (net (attempts w0)) result w of
          (Inr rs, w') \<Rightarrow> (Inr rs, w')
        | (Inl e, w') \<Rightarrow> (attempt_except e result, w')))))"

subsection \<open>The retry wrapper: test\_proxy\<close>

definition retry_note :: "nat \<Rightarrow> string" where
  \<comment> \<open>line 154: the suffix of a success that needed a retry\<close>
  "retry_note k = '' ('' @ s_retry @ '' '' @ str_nat k @ '' '' @ s_times @ '')''"

definition exhausted_note :: "nat \<Rightarrow> string" where
  \<comment> \<open>line 158: the suffix of a target that never succeeded\<close>
  "exhausted_note k = '' ('' @ s_already @ s_retry @ '' '' @ str_nat k @ '' '' @ s_times @ '')''"

text \<open>
  The \<^verbatim>\<open>while\<close> loop of lines 144 to 155 and the two lines after it. The progress
  line printed before each retry has no effect on the value returned and is left out.
\<close>

function retry_loop ::
    "(nat \<Rightarrow> attempt_net) \<Rightarrow> proxy_info \<Rightarrow> nat \<Rightarrow> result \<Rightarrow> world \<Rightarrow> (pyexc + result) \<times> world" where
  "retry_loop net proxy_info retry_count result w =
     (if retry_count < MAX_RETRIES then
        (case test_single_proxy_attempt net proxy_info (time_sleep 1 w) of
           (Inl e, w') \<Rightarrow> (Inl e, w')
         | (Inr (retry_result, retry_success), w') \<Rightarrow>
             if retry_success
             then (Inr (retry_result\<lparr>r_status := r_status retry_result @ retry_note (retry_count + 1)\<rparr>), w')
             else retry_loop net proxy_info (retry_count + 1) result w')
      else (Inr (result\<lparr>r_status := r_status result @ exhausted_note MAX_RETRIES\<rparr>), w))"
  by pat_completeness auto
termination
  by (relation "measure (\<lambda>(net, proxy_info, retry_count, result, w). MAX_RETRIES - retry_count)") auto

declare retry_loop.simps [simp del]

definition test_proxy ::
    "(nat \<Rightarrow> attempt_net) \<Rightarrow> proxy_info \<Rightarrow> world \<Rightarrow> (pyexc + result) \<times> world" where
  "test_proxy net proxy_info w =
     (case test_single_proxy_attempt net proxy_info w of
        (Inl e, w') \<Rightarrow> (Inl e, w')
      | (Inr (result, success), w') \<Rightarrow>
          if success then (Inr result, w')
          else retry_loop net proxy_info 1 result w')"

subsection \<open>The run: main\<close>

definition cap_targets :: "int \<Rightarrow> proxy_info list \<Rightarrow> proxy_info list" where
  \<comment> \<open>lines 181 and 182: the option \<^verbatim>\<open>--num\<close>\<close>
  "cap_targets num proxies =
     (if 0 < num \<and> num < int (length proxies) then take (nat num) proxies else proxies)"

text \<open>
  Line 193 submits one task per target. Task \<open>i\<close> runs \<^verbatim>\<open>test_proxy\<close> on target
  \<open>i\<close> against its own network behaviour \<open>nets i\<close>, from the moment \<open>starts i\<close> at
  which the pool starts it; its future holds the record returned or the exception raised.
\<close>

definition submit_all ::
    "(nat \<Rightarrow> nat \<Rightarrow> attempt_net) \<Rightarrow> (nat \<Rightarrow> real) \<Rightarrow> proxy_info list \<Rightarrow> (pyexc + result) list" where
  "submit_all nets starts proxies =
     map (\<lambda>i. fst (test_proxy (nets i) (proxies ! i) \<lparr>now = starts i, attempts = 0\<rparr>))
       [0..<length proxies]"

definition as_completed :: "nat list \<Rightarrow> 'a list \<Rightarrow> 'a list" where
  \<comment> \<open>the futures in the order they complete: \<open>completion\<close> lists their indices, each
      once\<close>
  "as_completed completion futures = map (\<lambda>i. futures ! i) completion"

fun collect :: "(pyexc + result) list \<Rightarrow> result list \<Rightarrow> pyexc + result list" where
  \<comment> \<open>the loop of lines 194 to 199; the message on standard error is left out\<close>
  "collect [] results = Inr results"
| "collect (Inr result # futures) results = collect futures (results @ [result])"
| "collect (Inl e # futures) results =
     (if isinstance e c_Exception then collect futures results else Inl e)"

definition main_results ::
    "int \<Rightarrow> (nat \<Rightarrow> nat \<Rightarrow> attempt_net) \<Rightarrow> (nat \<Rightarrow> real) \<Rightarrow> nat list \<Rightarrow> proxy_info list
      \<Rightarrow> pyexc + result list" where
  \<comment> \<open>lines 178 to 204: \<^verbatim>\<open>sys.exit(1)\<close> when no record was collected\<close>
  "main_results num nets starts completion listeners =
     (let proxies = cap_targets num listeners in
      case collect (as_completed completion (submit_all nets starts proxies)) [] of
        Inl e \<Rightarrow> Inl e
      | Inr results \<Rightarrow> if results = [] then Inl SystemExit else Inr results)"

text \<open>
  The sort of line 216 is the library's \<^verbatim>\<open>DataFrame.sort_values\<close>, taken as a
  parameter \<open>sort_values col ascending\<close>: \<open>col\<close> reads the column of integers to sort
  by and \<open>ascending\<close> is the direction. The program chooses both, in \<open>summarize\<close>.
  The library returns the rows rearranged, in ascending order of the column when
  \<open>ascending\<close> is set and in descending order otherwise; it promises nothing about
  rows with equal keys. Insertion sort is one such function.
\<close>

definition sort_values_contract ::
    "((result \<Rightarrow> int) \<Rightarrow> bool \<Rightarrow> result list \<Rightarrow> result list) \<Rightarrow> bool" where
  "sort_values_contract sort_values =
     (\<forall>col ascending rs.
        mset (sort_values col ascending rs) = mset rs
        \<and> sorted (map col (if ascending then sort_values col ascending rs
                            else rev (sort_values col ascending rs))))"

definition sorts_by_port :: "(result list \<Rightarrow> result list) \<Rightarrow> bool" where
  \<comment> \<open>what the contract gives for the call of line 216\<close>
  "sorts_by_port sort_port =
     (\<forall>rs. mset (sort_port rs) = mset rs \<and> sorted (map r_port (sort_port rs)))"

definition assign_rank :: "result list \<Rightarrow> (nat \<times> result) list" where
  \<comment> \<open>line 219: the column of sequence numbers \<^verbatim>\<open>range(1, len(df) + 1)\<close>\<close>
  "assign_rank df = zip [1..<length df + 1] df"

fun split_head :: "string \<Rightarrow> string \<Rightarrow> string" where
  \<comment> \<open>\<^verbatim>\<open>s.split(sep)[0]\<close> for a separator that is not empty\<close>
  "split_head sep [] = []"
| "split_head sep (c # cs) = (if prefix sep (c # cs) then [] else c # split_head sep cs)"

definition base_status :: "string \<Rightarrow> string" where
  \<comment> \<open>line 235\<close>
  "base_status status = split_head '' ('' status"

definition count_status :: "(string \<times> nat) list \<Rightarrow> string \<Rightarrow> (string \<times> nat) list" where
  \<comment> \<open>line 236, on a dictionary that keeps insertion order\<close>
  "count_status status_counts status =
     (let base = base_status status
      in AList.update base (dict_get status_counts base 0 + 1) status_counts)"

definition tally :: "string list \<Rightarrow> (string \<times> nat) list" where
  \<comment> \<open>lines 233 to 236\<close>
  "tally statuses = foldl count_status [] statuses"

record report =
  rows :: "(nat \<times> result) list"
  status_counts :: "(string \<times> nat) list"
  total :: nat
  success_count :: nat
  success_percent :: cell

definition summarize ::
    "((result \<Rightarrow> int) \<Rightarrow> bool \<Rightarrow> result list \<Rightarrow> result list) \<Rightarrow> nat \<Rightarrow> result list
      \<Rightarrow> report" where
  \<comment> \<open>lines 207 to 242; \<open>n\<close> is \<^verbatim>\<open>len(proxies)\<close>, the number of targets. Line 216
      sorts by the port column, ascending.\<close>
  "summarize sort_values n results =
     (let df = assign_rank (sort_values r_port True results);
          counts = tally (map (\<lambda>row. r_status (snd row)) df);
          succ = dict_get counts s_ok 0
      in \<lparr>rows = df, status_counts = counts, total = n, success_count = succ,
          success_percent = Fixed2 (real succ / real n * 100)\<rparr>)"

definition main ::
    "((result \<Rightarrow> int) \<Rightarrow> bool \<Rightarrow> result list \<Rightarrow> result list) \<Rightarrow> int
      \<Rightarrow> (nat \<Rightarrow> nat \<Rightarrow> attempt_net) \<Rightarrow> (nat \<Rightarrow> real)
      \<Rightarrow> nat list \<Rightarrow> proxy_info list \<Rightarrow> pyexc + report" where
  "main sort_values num nets starts completion listeners =
     (case main_results num nets starts completion listeners of
        Inl e \<Rightarrow> Inl e
      | Inr results \<Rightarrow>
          Inr (summarize sort_values (length (cap_targets num listeners)) results))"

subsection \<open>Notions used to state the properties\<close>

definition nth_attempt :: "(nat \<Rightarrow> attempt_net) \<Rightarrow> proxy_info \<Rightarrow> nat \<Rightarrow> pyexc + result \<times> bool" where
  \<comment> \<open>what call number \<open>k\<close> of \<^verbatim>\<open>test_single_proxy_attempt\<close> gives for a target\<close>
  "nth_attempt net p k = fst (test_single_proxy_attempt net p \<lparr>now = 0, attempts = k\<rparr>)"

definition attempt_fails :: "(nat \<Rightarrow> attempt_net) \<Rightarrow> proxy_info \<Rightarrow> nat \<Rightarrow> bool" where
  \<comment> \<open>call number \<open>k\<close> returns with the success flag unset\<close>
  "attempt_fails net p k =
     (case nth_attempt net p k of Inr (r, success) \<Rightarrow> \<not> success | Inl e \<Rightarrow> False)"

fun returned_records :: "(pyexc + result) list \<Rightarrow> result list" where
  \<comment> \<open>the records of the futures that returned one\<close>
  "returned_records [] = []"
| "returned_records (Inr r # fs) = r # returned_records fs"
| "returned_records (Inl e # fs) = returned_records fs"

subsection \<open>Example inputs\<close>

definition ex_target :: proxy_info where
  "ex_target = \<lparr>name = Some ''mixed0'', port = Some 42000, proxy = Some ''hk1''\<rparr>"

definition ex_target1 :: proxy_info where
  "ex_target1 = \<lparr>name = Some ''mixed1'', port = Some 42001, proxy = Some ''hk2''\<rparr>"

definition ex_target_no_port :: proxy_info where
  \<comment> \<open>a listener entry without the key \<^verbatim>\<open>port\<close>\<close>
  "ex_target_no_port = \<lparr>name = Some ''mixed1'', port = None, proxy = Some ''hk2''\<rparr>"

definition ex_world :: world where
  "ex_world = \<lparr>now = 100, attempts = 0\<rparr>"

definition ex_row :: result where
  "ex_row = initial_result ''mixed0'' 42000 ''hk1''"

definition ex_row1 :: result where
  "ex_row1 = initial_result ''mixed1'' 42001 ''hk2''"

definition ip_reply :: response where
  "ip_reply = \<lparr>status_code = 200, json_body = Inr (JObject [(''ip'', ''203.0.113.7'')])\<rparr>"

definition geo_ok_reply :: response where
  "geo_ok_reply = \<lparr>status_code = 200,
     json_body = Inr (JObject [(''country'', ''JP''), (''org'', ''AS64500 Example'')])\<rparr>"

definition unavailable_reply :: response where
  "unavailable_reply = \<lparr>status_code = 503, json_body = Inl (builtin_exc ''JSONDecodeError'')\<rparr>"

definition net_ok :: attempt_net where
  "net_ok = \<lparr>primary_took = 1 / 4, primary_reply = Inr ip_reply,
            geo_took = 3, geo_reply = Inr geo_ok_reply\<rparr>"

definition net_raise :: "pyexc \<Rightarrow> attempt_net" where
  "net_raise e = \<lparr>primary_took = 8, primary_reply = Inl e, geo_took = 0, geo_reply = Inl e\<rparr>"

definition net_http_error :: attempt_net where
  "net_http_error = \<lparr>primary_took = 1 / 2, primary_reply = Inr unavailable_reply,
                    geo_took = 0, geo_reply = Inr unavailable_reply\<rparr>"

definition net_geo_down :: attempt_net where
  "net_geo_down = \<lparr>primary_took = 1 / 4, primary_reply = Inr ip_reply,
                  geo_took = 1, geo_reply = Inr unavailable_reply\<rparr>"

definition net_geo_raise :: attempt_net where
  "net_geo_raise = \<lparr>primary_took = 1 / 4, primary_reply = Inr ip_reply,
                   geo_took = 8, geo_reply = Inl ReadTimeout\<rparr>"

definition ok_row :: result where
  "ok_row = ex_row\<lparr>r_status := s_ok, r_ip := ''203.0.113.7'', r_country := ''JP'',
              r_city := ''-'', r_org := ''AS64500 Example'', r_latency := Fixed2 250\<rparr>"

definition ok_row1 :: result where
  "ok_row1 = ex_row1\<lparr>r_status := s_ok, r_ip := ''203.0.113.7'', r_country := ''JP'',
               r_city := ''-'', r_org := ''AS64500 Example'', r_latency := Fixed2 250\<rparr>"

definition timeout_then_ok :: "nat \<Rightarrow> attempt_net" where
  "timeout_then_ok k = (if k = 0 then net_raise ReadTimeout else net_ok)"

definition timeout_then_proxy_error :: "nat \<Rightarrow> attempt_net" where
  "timeout_then_proxy_error k = (if k = 0 then net_raise ReadTimeout else net_raise ProxyError)"

definition always_ok :: "nat \<Rightarrow> attempt_net" where
  "always_ok k = net_ok"

definition always_geo_raise :: "nat \<Rightarrow> attempt_net" where
  "always_geo_raise k = net_geo_raise"

definition ex_nets :: "nat \<Rightarrow> nat \<Rightarrow> attempt_net" where
  \<comment> \<open>every attempt of every task succeeds\<close>
  "ex_nets i k = net_ok"

definition ex_starts :: "nat \<Rightarrow> real" where
  "ex_starts i = real i"

definition ex_sort_values :: "(result \<Rightarrow> int) \<Rightarrow> bool \<Rightarrow> result list \<Rightarrow> result list" where
  \<comment> \<open>insertion sort by the column, reversed for the descending direction\<close>
  "ex_sort_values col ascending rs =
     (if ascending then sort_key col rs else rev (sort_key col rs))"

definition ex_report :: report where
  "ex_report = \<lparr>rows = [(1, ok_row), (2, ok_row1)], status_counts = [(s_ok, 2)], total = 2,
      success_count = 2, success_percent = Fixed2 100\<rparr>"

definition ex_report_dropped :: report where
  "ex_report_dropped = \<lparr>rows = [(1, ok_row)], status_counts = [(s_ok, 1)], total = 2,
      success_count = 1, success_percent = Fixed2 50\<rparr>"

section \<open>Properties\<close>

lemmas exc_defs = isinstance_def c_Timeout_def c_ProxyError_def c_RequestException_def
  c_Exception_def ReadTimeout_def ConnectTimeout_def ProxyError_def ConnectionError_def
  KeyError_def TypeError_def AttributeError_def SystemExit_def builtin_exc_def
  request_exc_tail_def

lemmas attempt_defs = test_single_proxy_attempt_def getitem_def attempt_try_def
  attempt_except_def requests_get_def json_getitem_def geo_fields_def dict_get_def

lemmas ex_defs = ex_target_def ex_target1_def ex_target_no_port_def ex_world_def ex_row_def
  ex_row1_def ip_reply_def geo_ok_reply_def unavailable_reply_def net_ok_def net_raise_def
  net_http_error_def net_geo_down_def net_geo_raise_def ok_row_def ok_row1_def
  timeout_then_ok_def timeout_then_proxy_error_def always_ok_def always_geo_raise_def
  ex_nets_def ex_starts_def

subsection \<open>A single attempt\<close>

lemma attempts_single:
  "attempts (snd (test_single_proxy_attempt net p w)) = attempts w + 1"
  by (auto simp: test_single_proxy_attempt_def attempt_try_def requests_get_def Let_def
      split: sum.splits prod.splits option.splits if_splits)

lemma single_clock_free:
  "fst (test_single_proxy_attempt net p w) = nth_attempt net p (attempts w)"
  by (auto simp: nth_attempt_def test_single_proxy_attempt_def attempt_try_def requests_get_def
      Let_def split: sum.splits prod.splits option.splits if_splits)

lemma single_cases:
  obtains (raised) e w' where "test_single_proxy_attempt net p w = (Inl e, w')"
      "nth_attempt net p (attempts w) = Inl e" "attempts w' = attempts w + 1"
  | (returned) r s w' where "test_single_proxy_attempt net p w = (Inr (r, s), w')"
      "nth_attempt net p (attempts w) = Inr (r, s)" "attempts w' = attempts w + 1"
proof -
  obtain x w' where eq: "test_single_proxy_attempt net p w = (x, w')"
    by (cases "test_single_proxy_attempt net p w")
  have a: "attempts w' = attempts w + 1"
    using attempts_single [of net p w] eq by simp
  have b: "nth_attempt net p (attempts w) = x"
    using single_clock_free [of net p w] eq by simp
  show thesis
  proof (cases x)
    case (Inl e)
    with eq a b raised show ?thesis by simp
  next
    case (Inr rs)
    obtain r s where "rs = (r, s)" by (cases rs)
    with Inr eq a b returned show ?thesis by simp
  qed
qed

text \<open>
  Claim C5. When an exception \<open>e\<close> that is an \<^verbatim>\<open>Exception\<close> leaves the body of the
  \<^verbatim>\<open>try\<close>, the attempt returns the initial record with the success flag unset and a
  status chosen in this order: the timeout status if \<open>e\<close> is a \<^verbatim>\<open>Timeout\<close>; else the
  proxy-error status if it is a \<^verbatim>\<open>ProxyError\<close>; else the failure status tagged with
  the name of the class of \<open>e\<close> if it is a \<^verbatim>\<open>RequestException\<close>; else the error
  status tagged with that name.
\<close>

theorem attempt_failure_classification:
  assumes "name p = Some nm" and "port p = Some pt" and "proxy p = Some pn"
    and "fst (attempt_try (net (attempts w)) (initial_result nm pt pn)
               (w\<lparr>attempts := attempts w + 1\<rparr>)) = Inl e"
    and "isinstance e c_Exception"
  shows "fst (test_single_proxy_attempt net p w) =
     Inr ((initial_result nm pt pn)\<lparr>r_status :=
        (if isinstance e c_Timeout then s_timeout
         else if isinstance e c_ProxyError then s_proxy_error
         else if isinstance e c_RequestException then s_fail @ '': '' @ exc_name e
         else s_error @ '': '' @ exc_name e)\<rparr>, False)"
  using assms
  by (auto simp: test_single_proxy_attempt_def getitem_def attempt_except_def Let_def
      split: prod.splits sum.splits)

text \<open>
  A connect timeout, which is both a connection error and a timeout, is reported as a
  timeout.
\<close>

theorem attempt_failure_classification_witness:
  "name ex_target = Some ''mixed0'' \<and> port ex_target = Some 42000
   \<and> proxy ex_target = Some ''hk1''
   \<and> fst (attempt_try (net_raise ConnectTimeout) (initial_result ''mixed0'' 42000 ''hk1'')
        (ex_world\<lparr>attempts := attempts ex_world + 1\<rparr>)) = Inl ConnectTimeout
   \<and> isinstance ConnectTimeout c_Exception
   \<and> fst (test_single_proxy_attempt (\<lambda>k. net_raise ConnectTimeout) ex_target ex_world)
       = Inr ((initial_result ''mixed0'' 42000 ''hk1'')\<lparr>r_status := s_timeout\<rparr>, False)"
  using attempt_failure_classification [of ex_target "''mixed0''" 42000 "''hk1''"
      "\<lambda>k. net_raise ConnectTimeout" ex_world ConnectTimeout]
  by (simp add: ex_target_def ex_world_def net_raise_def attempt_try_def requests_get_def exc_defs)

text \<open>
  Claim C9. The latency of a successful attempt is the time the primary request took, in
  milliseconds, whatever the geolocation request took; the clock after the attempt has
  advanced by both.
\<close>

theorem latency_excludes_geo_lookup:
  assumes "test_single_proxy_attempt net p w = (Inr (r, True), w')"
  shows "r_latency r = Fixed2 (primary_took (net (attempts w)) * 1000)
       \<and> now w' = now w + primary_took (net (attempts w)) + geo_took (net (attempts w))"
  using assms
  by (auto simp: test_single_proxy_attempt_def attempt_try_def attempt_except_def
      requests_get_def Let_def split: sum.splits prod.splits option.splits if_splits)

theorem latency_excludes_geo_lookup_witness:
  "test_single_proxy_attempt always_ok ex_target ex_world
     = (Inr (ok_row, True), \<lparr>now = 100 + 1 / 4 + 3, attempts = 1\<rparr>)
   \<and> r_latency ok_row = Fixed2 (1 / 4 * 1000)
   \<and> now \<lparr>now = 100 + 1 / 4 + 3, attempts = 1\<rparr> = now ex_world + 1 / 4 + 3"
proof -
  have run: "test_single_proxy_attempt always_ok ex_target ex_world
     = (Inr (ok_row, True), \<lparr>now = 100 + 1 / 4 + 3, attempts = 1\<rparr>)"
    by (simp add: attempt_defs ex_defs initial_result_def)
  from latency_excludes_geo_lookup [OF run] run show ?thesis
    by (simp add: always_ok_def net_ok_def ex_world_def)
qed

text \<open>
  Claim C10. When the primary request returns a reply whose status is not 200, the attempt
  returns the initial record unchanged with the success flag unset: the status is the
  initial "failed" text and the address, country, city, operator and latency fields hold
  the dash. That status differs from the four statuses the exception handlers write.
\<close>

theorem non_200_generic_failure:
  assumes "name p = Some nm" and "port p = Some pt" and "proxy p = Some pn"
    and "primary_reply (net (attempts w)) = Inr resp" and "status_code resp \<noteq> 200"
  shows "fst (test_single_proxy_attempt net p w) = Inr (initial_result nm pt pn, False)
     \<and> r_status (initial_result nm pt pn) = s_fail
     \<and> r_ip (initial_result nm pt pn) = ''-''
     \<and> r_country (initial_result nm pt pn) = ''-''
     \<and> r_city (initial_result nm pt pn) = ''-''
     \<and> r_org (initial_result nm pt pn) = ''-''
     \<and> r_latency (initial_result nm pt pn) = Text ''-''
     \<and> s_fail \<noteq> s_timeout \<and> s_fail \<noteq> s_proxy_error
     \<and> s_fail \<noteq> s_fail @ '': '' @ x \<and> s_fail \<noteq> s_error @ '': '' @ y"
  using assms
  by (simp add: test_single_proxy_attempt_def getitem_def attempt_try_def requests_get_def
      Let_def initial_result_def s_fail_def s_timeout_def s_proxy_error_def s_error_def)

theorem non_200_generic_failure_witness:
  "name ex_target = Some ''mixed0'' \<and> port ex_target = Some 42000
   \<and> proxy ex_target = Some ''hk1''
   \<and> primary_reply net_http_error = Inr unavailable_reply
   \<and> status_code unavailable_reply \<noteq> 200
   \<and> fst (test_single_proxy_attempt (\<lambda>k. net_http_error) ex_target ex_world)
       = Inr (ex_row, False)
   \<and> r_status ex_row = s_fail \<and> r_latency ex_row = Text ''-''"
  using non_200_generic_failure [of ex_target "''mixed0''" 42000 "''hk1''"
      "\<lambda>k. net_http_error" ex_world unavailable_reply]
  by (simp add: ex_target_def ex_row_def net_http_error_def unavailable_reply_def)




subsection \<open>The retry wrapper\<close>

lemma sleep_attempts: "attempts (time_sleep d w) = attempts w"
  by (simp add: time_sleep_def)

lemma retry_loop_attempts:
  "attempts (snd (retry_loop net p rc result w)) \<le> attempts w + (MAX_RETRIES - rc)"
proof (induction net p rc result w rule: retry_loop.induct)
  case (1 net p rc result w)
  show ?case
  proof (cases "rc < MAX_RETRIES")
    case False
    then show ?thesis by (simp add: retry_loop.simps)
  next
    case True
    show ?thesis
    proof (cases rule: single_cases [of net p "time_sleep 1 w"])
      case (raised e w')
      with True show ?thesis by (simp add: retry_loop.simps [of net p rc] sleep_attempts)
    next
      case (returned r s w')
      show ?thesis
      proof (cases s)
        case True
        with returned \<open>rc < MAX_RETRIES\<close> show ?thesis
          by (simp add: retry_loop.simps [of net p rc] sleep_attempts)
      next
        case False
        have "attempts (snd (retry_loop net p (rc + 1) result w')) \<le> attempts w' + (MAX_RETRIES - (rc + 1))"
          using "1.IH" [OF \<open>rc < MAX_RETRIES\<close> returned(1) [symmetric] refl refl False] by simp
        with returned False \<open>rc < MAX_RETRIES\<close> show ?thesis
          by (simp add: retry_loop.simps [of net p rc] sleep_attempts)
      qed
    qed
  qed
qed

text \<open>
  Claim C6. A call of \<^verbatim>\<open>test_proxy\<close> makes at most 3 calls of
  \<^verbatim>\<open>test_single_proxy_attempt\<close>, whatever they return or raise.
\<close>

theorem test_proxy_at_most_three_attempts:
  "attempts (snd (test_proxy net p w)) \<le> attempts w + 3"
proof (cases rule: single_cases [of net p w])
  case (raised e w')
  then show ?thesis by (simp add: test_proxy_def)
next
  case (returned r s w')
  then show ?thesis
    using retry_loop_attempts [of net p 1 r w']
    by (simp add: test_proxy_def MAX_RETRIES_def)
qed

lemma retry_loop_success:
  assumes "rc + j < MAX_RETRIES"
    and "\<And>i. i < j \<Longrightarrow> attempt_fails net p (attempts w + i)"
    and "nth_attempt net p (attempts w + j) = Inr (r, True)"
  shows "fst (retry_loop net p rc result w) = Inr (r\<lparr>r_status := r_status r @ retry_note (rc + j + 1)\<rparr>)
       \<and> attempts (snd (retry_loop net p rc result w)) = attempts w + j + 1"
  using assms
proof (induction j arbitrary: rc w)
  case 0
  then have lt: "rc < MAX_RETRIES" by simp
  show ?case
  proof (cases rule: single_cases [of net p "time_sleep 1 w"])
    case (raised e w')
    with 0 show ?thesis by (simp add: sleep_attempts)
  next
    case (returned r' s w')
    with 0 lt show ?thesis by (simp add: retry_loop.simps [of net p rc] sleep_attempts)
  qed
next
  case (Suc j)
  then have lt: "rc < MAX_RETRIES" by simp
  have f0: "attempt_fails net p (attempts w)" using Suc.prems(2) [of 0] by simp
  show ?case
  proof (cases rule: single_cases [of net p "time_sleep 1 w"])
    case (raised e w')
    with f0 show ?thesis by (simp add: sleep_attempts attempt_fails_def)
  next
    case (returned r' s w')
    with f0 have s: "\<not> s" by (simp add: sleep_attempts attempt_fails_def)
    have aw: "attempts w' = attempts w + 1" using returned by (simp add: sleep_attempts)
    have "fst (retry_loop net p (rc + 1) result w') = Inr (r\<lparr>r_status := r_status r @ retry_note (rc + 1 + j + 1)\<rparr>)
       \<and> attempts (snd (retry_loop net p (rc + 1) result w')) = attempts w' + j + 1"
    proof (rule Suc.IH)
      show "rc + 1 + j < MAX_RETRIES" using Suc.prems(1) by simp
      show "attempt_fails net p (attempts w' + i)" if "i < j" for i
        using Suc.prems(2) [of "Suc i"] that aw by simp
      show "nth_attempt net p (attempts w' + j) = Inr (r, True)"
        using Suc.prems(3) aw by simp
    qed
    with returned s lt aw show ?thesis
      by (simp add: retry_loop.simps [of net p rc])
  qed
qed

lemma retry_loop_exhausted:
  assumes "\<And>i. i < MAX_RETRIES - rc \<Longrightarrow> attempt_fails net p (attempts w + i)"
  shows "fst (retry_loop net p rc result w) = Inr (result\<lparr>r_status := r_status result @ exhausted_note MAX_RETRIES\<rparr>)
       \<and> attempts (snd (retry_loop net p rc result w)) = attempts w + (MAX_RETRIES - rc)"
  using assms
proof (induction net p rc result w rule: retry_loop.induct)
  case (1 net p rc result w)
  show ?case
  proof (cases "rc < MAX_RETRIES")
    case False
    then show ?thesis by (simp add: retry_loop.simps)
  next
    case True
    then have f0: "attempt_fails net p (attempts w)" using "1.prems" [of 0] by simp
    show ?thesis
    proof (cases rule: single_cases [of net p "time_sleep 1 w"])
      case (raised e w')
      with f0 show ?thesis by (simp add: sleep_attempts attempt_fails_def)
    next
      case (returned r' s w')
      with f0 have s: "\<not> s" by (simp add: sleep_attempts attempt_fails_def)
      have aw: "attempts w' = attempts w + 1" using returned by (simp add: sleep_attempts)
      have "fst (retry_loop net p (rc + 1) result w') = Inr (result\<lparr>r_status := r_status result @ exhausted_note MAX_RETRIES\<rparr>)
       \<and> attempts (snd (retry_loop net p (rc + 1) result w')) = attempts w' + (MAX_RETRIES - (rc + 1))"
      proof (rule "1.IH" [OF True returned(1) [symmetric] refl refl s])
        show "attempt_fails net p (attempts w' + i)" if "i < MAX_RETRIES - (rc + 1)" for i
          using "1.prems" [of "Suc i"] that aw by simp
      qed
      with returned s True aw show ?thesis
        by (simp add: retry_loop.simps [of net p rc])
    qed
  qed
qed


text \<open>
  Claim C2, as amended. When the attempts before attempt \<open>k\<close> (counted from 0) fail and
  attempt \<open>k\<close> succeeds, \<^verbatim>\<open>test_proxy\<close> makes exactly \<open>k + 1\<close> calls and returns
  the record of attempt \<open>k\<close>; its status carries no annotation when \<open>k = 0\<close> and the
  annotation with the number \<open>k + 1\<close>, the attempt's number counted from 1, otherwise.
  When all 3 attempts fail, 3 calls are made and the status returned ends with the
  annotation of exhaustion with the number 3.
\<close>

theorem test_proxy_retry_annotation:
  "(k < MAX_RETRIES \<and> (\<forall>i<k. attempt_fails net p (attempts w + i))
      \<and> nth_attempt net p (attempts w + k) = Inr (r, True)
     \<longrightarrow> fst (test_proxy net p w)
           = Inr (r\<lparr>r_status := r_status r @ (if k = 0 then [] else retry_note (k + 1))\<rparr>)
         \<and> attempts (snd (test_proxy net p w)) = attempts w + k + 1)
   \<and> ((\<forall>i<MAX_RETRIES. attempt_fails net p (attempts w + i))
     \<longrightarrow> (case fst (test_proxy net p w) of
            Inr res \<Rightarrow> suffix (exhausted_note MAX_RETRIES) (r_status res)
          | Inl e \<Rightarrow> False)
         \<and> attempts (snd (test_proxy net p w)) = attempts w + MAX_RETRIES)"
proof (rule conjI; rule impI)
  assume h: "k < MAX_RETRIES \<and> (\<forall>i<k. attempt_fails net p (attempts w + i))
      \<and> nth_attempt net p (attempts w + k) = Inr (r, True)"
  show "fst (test_proxy net p w)
           = Inr (r\<lparr>r_status := r_status r @ (if k = 0 then [] else retry_note (k + 1))\<rparr>)
         \<and> attempts (snd (test_proxy net p w)) = attempts w + k + 1"
  proof (cases k)
    case 0
    with h show ?thesis
      by (cases rule: single_cases [of net p w]) (simp_all add: test_proxy_def)
  next
    case (Suc j)
    with h have f0: "attempt_fails net p (attempts w)" by auto
    show ?thesis
    proof (cases rule: single_cases [of net p w])
      case (raised e w')
      with f0 show ?thesis by (simp add: attempt_fails_def)
    next
      case (returned r0 s w')
      with f0 have s: "\<not> s" by (simp add: attempt_fails_def)
      have "fst (retry_loop net p 1 r0 w') = Inr (r\<lparr>r_status := r_status r @ retry_note (1 + j + 1)\<rparr>)
          \<and> attempts (snd (retry_loop net p 1 r0 w')) = attempts w' + j + 1"
      proof (rule retry_loop_success)
        show "1 + j < MAX_RETRIES" using h Suc by simp
        show "attempt_fails net p (attempts w' + i)" if "i < j" for i
          using h Suc that returned(3) by (auto dest: spec [of _ "Suc i"])
        show "nth_attempt net p (attempts w' + j) = Inr (r, True)"
          using h Suc returned(3) by simp
      qed
      with returned s Suc show ?thesis by (simp add: test_proxy_def)
    qed
  qed
next
  assume h: "\<forall>i<MAX_RETRIES. attempt_fails net p (attempts w + i)"
  then have f0: "attempt_fails net p (attempts w)" by (auto simp: MAX_RETRIES_def dest: spec [of _ 0])
  show "(case fst (test_proxy net p w) of
            Inr res \<Rightarrow> suffix (exhausted_note MAX_RETRIES) (r_status res)
          | Inl e \<Rightarrow> False)
         \<and> attempts (snd (test_proxy net p w)) = attempts w + MAX_RETRIES"
  proof (cases rule: single_cases [of net p w])
    case (raised e w')
    with f0 show ?thesis by (simp add: attempt_fails_def)
  next
    case (returned r0 s w')
    with f0 have s: "\<not> s" by (simp add: attempt_fails_def)
    have "fst (retry_loop net p 1 r0 w') = Inr (r0\<lparr>r_status := r_status r0 @ exhausted_note MAX_RETRIES\<rparr>)
       \<and> attempts (snd (retry_loop net p 1 r0 w')) = attempts w' + (MAX_RETRIES - 1)"
    proof (rule retry_loop_exhausted)
      show "attempt_fails net p (attempts w' + i)" if "i < MAX_RETRIES - 1" for i
        using h that returned(3) by (auto dest: spec [of _ "Suc i"])
    qed
    with returned s show ?thesis by (simp add: test_proxy_def MAX_RETRIES_def suffix_def)
  qed
qed

lemmas retry_eval = test_proxy_def retry_loop.simps MAX_RETRIES_def time_sleep_def attempt_defs
  exc_defs ex_defs initial_result_def

text \<open>
  Claim C1. The claim asks for the classification of the last attempt when all attempts
  fail. For a target whose first attempt times out and whose second and third attempts
  meet a proxy error, \<^verbatim>\<open>test_proxy\<close> returns the record of the first attempt with
  the annotation of exhaustion: the timeout status, not the proxy-error status of the
  last attempt.
\<close>

theorem test_proxy_exhausted_returns_first_attempt:
  "fst (test_proxy timeout_then_proxy_error ex_target ex_world)
     = Inr (ex_row\<lparr>r_status := s_timeout @ exhausted_note 3\<rparr>)
   \<and> nth_attempt timeout_then_proxy_error ex_target 0 = Inr (ex_row\<lparr>r_status := s_timeout\<rparr>, False)
   \<and> nth_attempt timeout_then_proxy_error ex_target 2 = Inr (ex_row\<lparr>r_status := s_proxy_error\<rparr>, False)
   \<and> s_timeout \<noteq> s_proxy_error"
  by (simp add: retry_eval nth_attempt_def s_timeout_def s_proxy_error_def)

text \<open>
  Claim C2 as stated fails: when the first attempt times out and the second succeeds,
  the annotation carries the number 2, not the index 1 of the successful attempt.
\<close>

theorem second_attempt_success_annotation_counterexample:
  "nth_attempt timeout_then_ok ex_target 0 = Inr (ex_row\<lparr>r_status := s_timeout\<rparr>, False)
   \<and> nth_attempt timeout_then_ok ex_target 1 = Inr (ok_row, True)
   \<and> fst (test_proxy timeout_then_ok ex_target ex_world)
       = Inr (ok_row\<lparr>r_status := s_ok @ retry_note 2\<rparr>)
   \<and> s_ok @ retry_note 2 \<noteq> s_ok @ retry_note 1"
  by (simp add: retry_eval nth_attempt_def retry_note_def str_nat.simps digit_char_def)

theorem test_proxy_retry_annotation_witness:
  "1 < MAX_RETRIES
   \<and> attempt_fails timeout_then_ok ex_target (attempts ex_world + 0)
   \<and> nth_attempt timeout_then_ok ex_target (attempts ex_world + 1) = Inr (ok_row, True)
   \<and> fst (test_proxy timeout_then_ok ex_target ex_world)
       = Inr (ok_row\<lparr>r_status := r_status ok_row @ retry_note 2\<rparr>)
   \<and> attempts (snd (test_proxy timeout_then_ok ex_target ex_world)) = 2
   \<and> attempt_fails timeout_then_proxy_error ex_target (attempts ex_world + 0)
   \<and> attempt_fails timeout_then_proxy_error ex_target (attempts ex_world + 1)
   \<and> attempt_fails timeout_then_proxy_error ex_target (attempts ex_world + 2)
   \<and> attempts (snd (test_proxy timeout_then_proxy_error ex_target ex_world)) = 3"
proof -
  have f0: "attempt_fails timeout_then_ok ex_target (attempts ex_world + 0)"
    by (simp add: attempt_fails_def nth_attempt_def attempt_defs exc_defs ex_defs
        initial_result_def)
  have ok1: "nth_attempt timeout_then_ok ex_target (attempts ex_world + 1) = Inr (ok_row, True)"
    by (simp add: nth_attempt_def attempt_defs exc_defs ex_defs initial_result_def)
  have a: "1 < MAX_RETRIES
      \<and> (\<forall>i<1. attempt_fails timeout_then_ok ex_target (attempts ex_world + i))
      \<and> nth_attempt timeout_then_ok ex_target (attempts ex_world + 1) = Inr (ok_row, True)"
    using f0 ok1 by (simp add: MAX_RETRIES_def)
  have fails: "attempt_fails timeout_then_proxy_error ex_target i" for i
    by (simp add: attempt_fails_def nth_attempt_def attempt_defs exc_defs ex_defs
        initial_result_def)
  then have b: "\<forall>i<MAX_RETRIES.
      attempt_fails timeout_then_proxy_error ex_target (attempts ex_world + i)"
    by simp
  from a b test_proxy_retry_annotation [of 1 timeout_then_ok ex_target ex_world ok_row]
    test_proxy_retry_annotation [of 0 timeout_then_proxy_error ex_target ex_world ok_row]
  have "fst (test_proxy timeout_then_ok ex_target ex_world)
       = Inr (ok_row\<lparr>r_status := r_status ok_row @ retry_note 2\<rparr>)
   \<and> attempts (snd (test_proxy timeout_then_ok ex_target ex_world)) = 2
   \<and> attempts (snd (test_proxy timeout_then_proxy_error ex_target ex_world)) = 3"
    by (simp add: MAX_RETRIES_def ex_world_def numeral_2_eq_2)
  with f0 ok1 fails show ?thesis
    by (simp add: MAX_RETRIES_def)
qed

subsection \<open>Collecting the records\<close>

lemma collect_acc: "collect fs acc = Inr rs \<Longrightarrow> rs = acc @ returned_records fs"
  by (induction fs acc rule: collect.induct) (auto split: if_splits)

lemma length_returned_records:
  "length (returned_records fs) + length (filter isl fs) = length fs"
  by (induction fs rule: returned_records.induct) auto

lemma mset_returned_records:
  "mset (returned_records fs) = image_mset projr (filter_mset (\<lambda>f. \<not> isl f) (mset fs))"
  by (induction fs rule: returned_records.induct) auto

lemma as_completed_mset:
  assumes "mset completion = mset [0..<length fs]"
  shows "mset (as_completed completion fs) = mset fs"
proof -
  have "mset (as_completed completion fs) = image_mset (\<lambda>i. fs ! i) (mset completion)"
    by (simp add: as_completed_def)
  also have "\<dots> = mset (map (\<lambda>i. fs ! i) [0..<length fs])"
    using assms by simp
  also have "\<dots> = mset fs"
    by (simp add: map_nth)
  finally show ?thesis .
qed

lemma length_submit_all: "length (submit_all nets starts proxies) = length proxies"
  by (simp add: submit_all_def)

lemma main_results_records:
  assumes "mset completion = mset [0..<length (cap_targets num listeners)]"
    and "main_results num nets starts completion listeners = Inr results"
  shows "mset results = mset (returned_records (submit_all nets starts (cap_targets num listeners)))"
proof -
  let ?fs = "submit_all nets starts (cap_targets num listeners)"
  from assms(2) have "collect (as_completed completion ?fs) [] = Inr results"
    by (auto simp: main_results_def Let_def split: sum.splits if_splits)
  then have "results = returned_records (as_completed completion ?fs)"
    using collect_acc by fastforce
  moreover have "mset (as_completed completion ?fs) = mset ?fs"
    using assms(1) by (intro as_completed_mset) (simp add: length_submit_all)
  ultimately show ?thesis
    by (simp add: mset_returned_records)
qed

text \<open>
  Claim C3, as amended. When the futures complete in any order, each once, the records
  collected are exactly the records of the tasks that returned one. A task that raised
  contributes no record, so the number of records plus the number of tasks that raised is
  the number of targets.
\<close>

theorem one_record_per_returned_task:
  assumes "mset completion = mset [0..<length (cap_targets num listeners)]"
    and "main_results num nets starts completion listeners = Inr results"
  shows "mset results = mset (returned_records (submit_all nets starts (cap_targets num listeners)))
       \<and> length results + length (filter isl (submit_all nets starts (cap_targets num listeners)))
           = length (cap_targets num listeners)"
proof -
  let ?fs = "submit_all nets starts (cap_targets num listeners)"
  have m: "mset results = mset (returned_records ?fs)"
    using assms by (rule main_results_records)
  then have "length results = length (returned_records ?fs)"
    by (rule mset_eq_length)
  with m length_returned_records [of ?fs] show ?thesis
    by (simp add: length_submit_all)
qed

lemmas run_eval = main_results_def cap_targets_def submit_all_def as_completed_def
  test_proxy_def retry_loop.simps MAX_RETRIES_def time_sleep_def attempt_defs
  exc_defs ex_defs initial_result_def

lemma upt2: "[0..<2] = [0, 1]" by (simp add: upt_rec)

text \<open>
  Claim C3 as stated fails: of two targets, one of which lacks the key \<^verbatim>\<open>port\<close>,
  the second task raises \<^verbatim>\<open>KeyError\<close> and the run collects one record for two
  targets.
\<close>

theorem faulted_task_dropped_counterexample:
  "submit_all ex_nets ex_starts [ex_target, ex_target_no_port] = [Inr ok_row, Inl KeyError]
   \<and> main_results 0 ex_nets ex_starts [0, 1] [ex_target, ex_target_no_port] = Inr [ok_row]
   \<and> length [ok_row] \<noteq> length [ex_target, ex_target_no_port]"
  by (simp add: run_eval upt2)

theorem one_record_per_returned_task_witness:
  "mset [1, 0] = mset [0..<length (cap_targets 0 [ex_target1, ex_target])]
   \<and> main_results 0 ex_nets ex_starts [1, 0] [ex_target1, ex_target] = Inr [ok_row, ok_row1]
   \<and> length [ok_row, ok_row1] + length (filter isl (submit_all ex_nets ex_starts (cap_targets 0 [ex_target1, ex_target]))) = 2"
proof -
  have a: "mset [1, 0] = mset [0..<length (cap_targets 0 [ex_target1, ex_target])]"
    by (simp add: cap_targets_def upt2)
  have b: "main_results 0 ex_nets ex_starts [1, 0] [ex_target1, ex_target] = Inr [ok_row, ok_row1]"
    by (simp add: run_eval upt2)
  from one_record_per_returned_task [OF a b] a b show ?thesis by (simp add: cap_targets_def)
qed

subsection \<open>The report\<close>

lemma assign_rank_snd: "map snd (assign_rank df) = df"
  unfolding assign_rank_def by (rule map_snd_zip) (simp del: upt_Suc)

lemma assign_rank_fst: "map fst (assign_rank df) = [1..<length df + 1]"
  unfolding assign_rank_def by (rule map_fst_zip) (simp del: upt_Suc)

lemma assign_rank_length: "length (assign_rank df) = length df"
  by (simp add: assign_rank_def del: upt_Suc)

lemma assign_rank_nth: "i < length df \<Longrightarrow> assign_rank df ! i = (i + 1, df ! i)"
  by (simp add: assign_rank_def nth_upt del: upt_Suc)

lemma dict_get_update:
  "dict_get (AList.update k v al) b d = (if b = k then v else dict_get al b d)"
  by (simp add: dict_get_def update_conv')

lemma sum_update_bump:
  fixes al :: "(string \<times> nat) list"
  shows "sum_list (map snd (AList.update k (Suc (dict_get al k 0)) al)) = Suc (sum_list (map snd al))"
  by (induction al) (auto simp: dict_get_def)

lemma foldl_count_sum:
  "sum_list (map snd (foldl count_status acc ss)) = sum_list (map snd acc) + length ss"
  by (induction ss arbitrary: acc) (simp_all add: count_status_def Let_def sum_update_bump)

lemma foldl_count_get:
  "dict_get (foldl count_status acc ss) b 0
     = dict_get acc b 0 + length (filter (\<lambda>s. base_status s = b) ss)"
  by (induction ss arbitrary: acc) (auto simp: count_status_def Let_def dict_get_update)

lemma tally_sum: "sum_list (map snd (tally ss)) = length ss"
  by (simp add: tally_def foldl_count_sum)

lemma dict_get_empty: "dict_get [] b d = d"
  by (simp add: dict_get_def)

lemma tally_get: "dict_get (tally ss) b 0 = length (filter (\<lambda>s. base_status s = b) ss)"
  by (simp add: tally_def foldl_count_get dict_get_empty)

lemma no_paren_prefix:
  "CHR ''('' \<notin> set b \<Longrightarrow> \<not> prefix (CHR ''('' # s) (b @ CHR '' '' # rest)"
  by (cases b) auto

lemma no_paren_prefix_plain: "CHR ''('' \<notin> set b \<Longrightarrow> \<not> prefix (CHR ''('' # s) b"
  by (cases b) auto

lemma split_head_no_paren:
  "CHR ''('' \<notin> set b \<Longrightarrow> split_head '' ('' (b @ '' ('' @ rest) = b"
  by (induction b) (auto simp: no_paren_prefix)

lemma split_head_plain: "CHR ''('' \<notin> set b \<Longrightarrow> split_head '' ('' b = b"
  by (induction b) (auto simp: no_paren_prefix_plain)

lemma base_status_strips:
  assumes "CHR ''('' \<notin> set b"
  shows "base_status b = b \<and> base_status (b @ retry_note k) = b
       \<and> base_status (b @ exhausted_note k) = b"
  using assms split_head_no_paren [of b] split_head_plain [of b]
  by (simp add: base_status_def retry_note_def exhausted_note_def)

lemma sorts_by_port_length:
  assumes "sorts_by_port sv"
  shows "length (sv rs) = length rs"
proof -
  from assms have "mset (sv rs) = mset rs"
    by (simp add: sorts_by_port_def)
  then show ?thesis by (rule mset_eq_length)
qed

text \<open>
  Claim C7, as amended. The tally counts, under each base status, the rows whose status
  has that base status once the text from the first \<^verbatim>\<open>" ("\<close> on is cut off; for a
  status without an opening parenthesis this cuts off exactly the retry annotation. The
  counts sum to the number of rows, and that sum plus the number of tasks that raised is
  the total number of targets. The success count is the count under the success status,
  and the success percentage is the success count divided by the total number of targets,
  times 100, rendered with 2 decimals.
\<close>

theorem tally_counts_records:
  assumes "mset completion = mset [0..<length (cap_targets num listeners)]"
    and "sorts_by_port (sort_values r_port True)"
    and "main sort_values num nets starts completion listeners = Inr rep"
  shows "dict_get (status_counts rep) b 0
           = length (filter (\<lambda>row. base_status (r_status (snd row)) = b) (rows rep))
     \<and> (CHR ''('' \<notin> set b \<longrightarrow> base_status b = b \<and> base_status (b @ retry_note k) = b
            \<and> base_status (b @ exhausted_note k) = b)
     \<and> sum_list (map snd (status_counts rep)) = length (rows rep)
     \<and> total rep = length (cap_targets num listeners)
     \<and> sum_list (map snd (status_counts rep))
          + length (filter isl (submit_all nets starts (cap_targets num listeners))) = total rep
     \<and> success_count rep = dict_get (status_counts rep) s_ok 0
     \<and> success_percent rep = Fixed2 (real (success_count rep) / real (total rep) * 100)"
proof -
  obtain results where res: "main_results num nets starts completion listeners = Inr results"
    and rep: "rep = summarize sort_values (length (cap_targets num listeners)) results"
    using assms(3) by (auto simp: main_def split: sum.splits)
  have len: "length (rows rep) = length results"
    using assms(2) by (simp add: rep summarize_def Let_def assign_rank_length sorts_by_port_length)
  have cnt: "length results + length (filter isl (submit_all nets starts (cap_targets num listeners)))
           = length (cap_targets num listeners)"
    using mset_eq_length [OF main_results_records [OF assms(1) res]]
      length_returned_records [of "submit_all nets starts (cap_targets num listeners)"]
    by (simp add: length_submit_all)
  have sum: "sum_list (map snd (status_counts rep)) = length (rows rep)"
    by (simp add: rep summarize_def Let_def tally_sum)
  have get: "dict_get (status_counts rep) b 0
           = length (filter (\<lambda>row. base_status (r_status (snd row)) = b) (rows rep))"
    by (simp add: rep summarize_def Let_def tally_get filter_map comp_def)
  have rest: "total rep = length (cap_targets num listeners)"
    "success_count rep = dict_get (status_counts rep) s_ok 0"
    "success_percent rep = Fixed2 (real (success_count rep) / real (total rep) * 100)"
    by (simp_all add: rep summarize_def Let_def)
  from len cnt sum get rest base_status_strips [of b k] show ?thesis
    by simp
qed

lemma contract_sorts_by_port:
  "sort_values_contract sort_values \<Longrightarrow> sorts_by_port (sort_values r_port True)"
  unfolding sort_values_contract_def sorts_by_port_def
proof
  fix rs
  assume c: "\<forall>col ascending rs.
        mset (sort_values col ascending rs) = mset rs
        \<and> sorted (map col (if ascending then sort_values col ascending rs
                            else rev (sort_values col ascending rs)))"
  from c have "mset (sort_values r_port True rs) = mset rs
        \<and> sorted (map r_port (if True then sort_values r_port True rs
                           else rev (sort_values r_port True rs)))"
    by blast
  then show "mset (sort_values r_port True rs) = mset rs
      \<and> sorted (map r_port (sort_values r_port True rs))"
    by simp
qed

lemma sorted_ports_unique:
  assumes "mset df = mset results" and "sorted (map r_port df)"
  shows "map r_port df = sort (map r_port results)"
proof -
  have "mset (map r_port df) = mset (map r_port results)"
    using assms(1) by (metis mset_map)
  then have "sort (map r_port results) = map r_port df"
    using assms(2) by (rule properties_for_sort)
  then show ?thesis by simp
qed

text \<open>
  Claim C8. The rows of the report are the records the run collected, each once; their
  port column is the sorted port column of the collected records; the sequence numbers
  are 1 to N in this order; and a row with a smaller port than another row comes before
  it and has the smaller sequence number. The order comes from the call of line 216,
  which \<open>summarize\<close> makes with the port column and the ascending direction.
\<close>

theorem rank_follows_port_order:
  assumes "sort_values_contract sort_values"
    and "main_results num nets starts completion listeners = Inr results"
    and "main sort_values num nets starts completion listeners = Inr rep"
  shows "mset (map snd (rows rep)) = mset results
     \<and> map (\<lambda>row. r_port (snd row)) (rows rep) = sort (map r_port results)
     \<and> map fst (rows rep) = [1..<length results + 1]
     \<and> (\<forall>i j. i < length (rows rep) \<and> j < length (rows rep)
            \<and> r_port (snd (rows rep ! i)) < r_port (snd (rows rep ! j))
          \<longrightarrow> i < j \<and> fst (rows rep ! i) < fst (rows rep ! j))"
proof -
  have rep: "rep = summarize sort_values (length (cap_targets num listeners)) results"
    using assms(2, 3) by (simp add: main_def)
  define df where "df = sort_values r_port True results"
  have rows: "rows rep = assign_rank df"
    by (simp add: rep summarize_def Let_def df_def)
  have port_sort: "sorts_by_port (sort_values r_port True)"
    using assms(1) by (rule contract_sorts_by_port)
  have perm: "mset df = mset results"
    using port_sort by (simp add: sorts_by_port_def df_def)
  have srt: "sorted (map r_port df)"
    using port_sort by (simp add: sorts_by_port_def df_def)
  have len: "length df = length results"
    using perm by (rule mset_eq_length)
  have records: "mset (map snd (rows rep)) = mset results"
    by (simp only: rows assign_rank_snd perm)
  have ports: "map (\<lambda>row. r_port (snd row)) (rows rep) = map r_port df"
  proof -
    have "map (\<lambda>row. r_port (snd row)) (assign_rank df) = map r_port (map snd (assign_rank df))"
      by simp
    then show ?thesis by (simp only: rows assign_rank_snd)
  qed
  have sorted_ports: "map (\<lambda>row. r_port (snd row)) (rows rep) = sort (map r_port results)"
    using ports sorted_ports_unique [OF perm srt] by simp
  have ranks: "map fst (rows rep) = [1..<length results + 1]"
    by (simp only: rows assign_rank_fst len)
  have order: "i < j \<and> fst (rows rep ! i) < fst (rows rep ! j)"
    if "i < length (rows rep)" "j < length (rows rep)"
      "r_port (snd (rows rep ! i)) < r_port (snd (rows rep ! j))" for i j
  proof -
    from that have i: "i < length df" and j: "j < length df"
      by (simp_all add: rows assign_rank_length)
    have lt: "r_port (df ! i) < r_port (df ! j)"
      using that(3) i j by (simp add: rows assign_rank_nth)
    have "i < j"
    proof (rule ccontr)
      assume "\<not> i < j"
      then have "j \<le> i" by simp
      then have "map r_port df ! j \<le> map r_port df ! i"
        using srt i by (simp add: sorted_iff_nth_mono)
      with lt i j show False by simp
    qed
    then show ?thesis using i j by (simp add: rows assign_rank_nth)
  qed
  show ?thesis
  proof (intro conjI)
    show "mset (map snd (rows rep)) = mset results" by (rule records)
    show "map (\<lambda>row. r_port (snd row)) (rows rep) = sort (map r_port results)"
      by (rule sorted_ports)
    show "map fst (rows rep) = [1..<length results + 1]" by (rule ranks)
    show "\<forall>i j. i < length (rows rep) \<and> j < length (rows rep)
            \<and> r_port (snd (rows rep ! i)) < r_port (snd (rows rep ! j))
          \<longrightarrow> i < j \<and> fst (rows rep ! i) < fst (rows rep ! j)"
      using order by blast
  qed
qed

lemma ex_sort_values_contract: "sort_values_contract ex_sort_values"
  by (simp add: sort_values_contract_def ex_sort_values_def)

lemma ex_sorts_by_port: "sorts_by_port (ex_sort_values r_port True)"
  using ex_sort_values_contract by (rule contract_sorts_by_port)

lemma ex_rank: "assign_rank [a, b] = [(1, a), (2, b)]"
  by (simp add: assign_rank_def upt_rec)

lemma ex_status: "r_status ok_row = s_ok" "r_status ok_row1 = s_ok"
  by (simp_all add: ok_row_def ok_row1_def)

lemma ex_ports: "r_port ok_row = 42000" "r_port ok_row1 = 42001"
  by (simp_all add: ok_row_def ok_row1_def ex_row_def ex_row1_def initial_result_def)

lemma ex_tally: "tally [s_ok, s_ok] = [(s_ok, 2)]"
  by (simp add: tally_def count_status_def base_status_def s_ok_def dict_get_def)

lemma ex_sort: "ex_sort_values r_port True [ok_row1, ok_row] = [ok_row, ok_row1]"
  by (simp add: ex_sort_values_def ex_ports)

lemma ex_run: "main_results 0 ex_nets ex_starts [0, 1] [ex_target1, ex_target] = Inr [ok_row1, ok_row]"
  by (simp add: run_eval upt2)

lemma ex_main:
  "main ex_sort_values 0 ex_nets ex_starts [0, 1] [ex_target1, ex_target] = Inr ex_report"
  unfolding main_def ex_run
  by (simp add: summarize_def ex_sort cap_targets_def ex_rank ex_status ex_tally
        ex_report_def dict_get_def)

theorem tally_counts_records_witness:
  "mset [0, 1] = mset [0..<length (cap_targets 0 [ex_target1, ex_target])]
   \<and> sorts_by_port (ex_sort_values r_port True)
   \<and> main ex_sort_values 0 ex_nets ex_starts [0, 1] [ex_target1, ex_target] = Inr ex_report
   \<and> CHR ''('' \<notin> set s_ok
   \<and> dict_get (status_counts ex_report) s_ok 0 = 2
   \<and> base_status (s_ok @ retry_note 2) = s_ok
   \<and> sum_list (map snd (status_counts ex_report)) = 2
   \<and> total ex_report = 2
   \<and> success_percent ex_report = Fixed2 100"
proof -
  have perm: "mset [0, 1] = mset [0..<length (cap_targets 0 [ex_target1, ex_target])]"
    by (simp add: cap_targets_def upt2)
  have paren: "CHR ''('' \<notin> set s_ok"
    by (simp add: s_ok_def)
  note c = tally_counts_records [where b = s_ok and k = 2,
      OF perm ex_sorts_by_port ex_main]
  have c1: "dict_get (status_counts ex_report) s_ok 0 = 2"
    by (simp add: ex_report_def dict_get_def)
  have c2: "base_status (s_ok @ retry_note 2) = s_ok"
    using c paren by blast
  have c3: "sum_list (map snd (status_counts ex_report)) = 2"
    by (simp add: ex_report_def)
  have c4: "total ex_report = 2"
    by (simp add: ex_report_def)
  have c5: "success_percent ex_report = Fixed2 100"
    by (simp add: ex_report_def)
  show ?thesis
    by (intro conjI perm paren ex_sorts_by_port ex_main c1 c2 c3 c4 c5)
qed

text \<open>
  Claim C7 as stated fails: of two targets, one of which lacks the key \<^verbatim>\<open>port\<close>,
  the tally holds one success and its counts sum to 1, while the total number of targets
  reported is 2 and the success percentage is 50.
\<close>

theorem tally_sum_below_target_count_counterexample:
  "main ex_sort_values 0 ex_nets ex_starts [0, 1] [ex_target, ex_target_no_port]
     = Inr ex_report_dropped
   \<and> sum_list (map snd (status_counts ex_report_dropped)) = 1
   \<and> total ex_report_dropped = 2
   \<and> success_percent ex_report_dropped = Fixed2 50"
proof -
  have run: "main_results 0 ex_nets ex_starts [0, 1] [ex_target, ex_target_no_port] = Inr [ok_row]"
    by (simp add: run_eval upt2)
  have one: "assign_rank [ok_row] = [(1, ok_row)]"
    by (simp add: assign_rank_def)
  have tl: "tally [s_ok] = [(s_ok, 1)]"
    by (simp add: tally_def count_status_def base_status_def s_ok_def dict_get_def)
  have "main ex_sort_values 0 ex_nets ex_starts [0, 1] [ex_target, ex_target_no_port]
     = Inr ex_report_dropped"
    unfolding main_def run
    by (simp add: summarize_def ex_sort_values_def cap_targets_def one ex_status tl
        ex_report_dropped_def dict_get_def)
  then show ?thesis
    by (simp add: ex_report_dropped_def)
qed

theorem rank_follows_port_order_witness:
  "sort_values_contract ex_sort_values
   \<and> main_results 0 ex_nets ex_starts [0, 1] [ex_target1, ex_target] = Inr [ok_row1, ok_row]
   \<and> main ex_sort_values 0 ex_nets ex_starts [0, 1] [ex_target1, ex_target] = Inr ex_report
   \<and> mset (map snd (rows ex_report)) = mset [ok_row1, ok_row]
   \<and> map snd (rows ex_report) = [ok_row, ok_row1]
   \<and> map (\<lambda>row. r_port (snd row)) (rows ex_report) = [42000, 42001]
   \<and> map fst (rows ex_report) = [1, 2]"
proof -
  note c = rank_follows_port_order [OF ex_sort_values_contract ex_run ex_main]
  have records: "mset (map snd (rows ex_report)) = mset [ok_row1, ok_row]"
    using c by (rule conjunct1)
  have rows: "map snd (rows ex_report) = [ok_row, ok_row1]"
    by (simp add: ex_report_def)
  have ports: "map (\<lambda>row. r_port (snd row)) (rows ex_report) = [42000, 42001]"
    by (simp add: ex_report_def ex_ports)
  have ranks: "map fst (rows ex_report) = [1, 2]"
    by (simp add: ex_report_def)
  show ?thesis
    by (intro conjI ex_sort_values_contract ex_run ex_main records rows ports ranks)
qed

end
